theory Spec2Isabelle
  imports Main "HOL-Library.Finite_Map"
begin

section \<open>JSON values as the gateway sees them\<close>

text \<open>
  The HTTP gateway (\<^verbatim>\<open>http-server.ts\<close>) and the stdio runner (\<^verbatim>\<open>index.ts\<close>) work on
  parsed JSON. A value is one of the six JSON kinds; a property that is absent reads as
  JavaScript's \<^verbatim>\<open>undefined\<close>, modelled by \<open>None\<close> of \<open>json option\<close>. Objects are finite
  maps from keys to values. Numbers are restricted to integers. Strings are HOL strings,
  one \<open>char\<close> per code unit.
\<close>

datatype json =
    JNull
  | JBool bool
  | JNum int
  | JStr string
  | JArr "json list"
  | JObj "(string, json) fmap"

text \<open>
  Reading a named property \<^verbatim>\<open>v.k\<close> (or \<^verbatim>\<open>v?.k\<close>). The keys read by the gateway
  (\<^verbatim>\<open>jsonrpc\<close>, \<^verbatim>\<open>id\<close>, \<^verbatim>\<open>method\<close>, \<^verbatim>\<open>params\<close>, \<^verbatim>\<open>name\<close>, \<^verbatim>\<open>arguments\<close>) are not
  inherited by any JSON value, so only an object has them. The request body is what
  \<^verbatim>\<open>express.json()\<close> stored, an object or an array, never \<^verbatim>\<open>null\<close>.
\<close>

fun field :: "json \<Rightarrow> string \<Rightarrow> json option" where
  "field (JObj m) k = fmlookup m k"
| "field _ k = None"

text \<open>\<^verbatim>\<open>v?.k\<close> on a value that may itself be \<^verbatim>\<open>undefined\<close>.\<close>

fun opt_field :: "json option \<Rightarrow> string \<Rightarrow> json option" where
  "opt_field None k = None"
| "opt_field (Some v) k = field v k"

text \<open>JavaScript truthiness: \<^verbatim>\<open>undefined\<close>, \<^verbatim>\<open>null\<close>, \<^verbatim>\<open>false\<close>, \<^verbatim>\<open>0\<close> and \<^verbatim>\<open>""\<close> are falsy.\<close>

fun truthy :: "json option \<Rightarrow> bool" where
  "truthy None = False"
| "truthy (Some JNull) = False"
| "truthy (Some (JBool b)) = b"
| "truthy (Some (JNum n)) = (n \<noteq> 0)"
| "truthy (Some (JStr s)) = (s \<noteq> [])"
| "truthy (Some (JArr xs)) = True"
| "truthy (Some (JObj m)) = True"

text \<open>\<^verbatim>\<open>x || null\<close> and \<^verbatim>\<open>x || {}\<close>.\<close>

definition or_null :: "json option \<Rightarrow> json" where
  "or_null x = (case x of None \<Rightarrow> JNull | Some v \<Rightarrow> if truthy (Some v) then v else JNull)"

definition or_empty :: "json option \<Rightarrow> json" where
  "or_empty x = (case x of None \<Rightarrow> JObj fmempty | Some v \<Rightarrow> if truthy (Some v) then v else JObj fmempty)"

section \<open>String primitives\<close>

text \<open>\<^verbatim>\<open>String.prototype.trim\<close>: white space and line terminators among the code units below 256.\<close>

definition is_ws :: "char \<Rightarrow> bool" where
  "is_ws c = (c \<in> {CHR 0x09, CHR 0x0A, CHR 0x0B, CHR 0x0C, CHR 0x0D, CHR 0x20, CHR 0xA0})"

definition trim :: "string \<Rightarrow> string" where
  "trim s = rev (dropWhile is_ws (rev (dropWhile is_ws s)))"

text \<open>\<^verbatim>\<open>s.split(',')\<close>: the empty string splits into one empty piece.\<close>

fun split_comma :: "string \<Rightarrow> string list" where
  "split_comma [] = [[]]"
| "split_comma (c # cs) =
     (if c = CHR '','' then [] # split_comma cs
      else (case split_comma cs of [] \<Rightarrow> [[c]] | w # ws \<Rightarrow> (c # w) # ws))"

definition startsWith :: "string \<Rightarrow> string \<Rightarrow> bool" where
  "startsWith s p = (take (length p) s = p)"

section \<open>Token store\<close>

record log_entry =
  level :: string
  msg :: string
  data :: "(string \<times> string option) list"

text \<open>
  The server object's \<^verbatim>\<open>validTokenHashes\<close> set, together with the lines handed to the
  logging collaborator so far.
\<close>

record server =
  validTokenHashes :: "string set"
  logged :: "log_entry list"

text \<open>
  One round of the \<^verbatim>\<open>pats.forEach\<close> loop of \<^verbatim>\<open>setupAuthentication\<close>. The digest
  \<^verbatim>\<open>crypto.createHash('sha256').update(x).digest('hex')\<close> is a library call; it is the
  parameter \<open>H\<close>.
\<close>

definition load_pat :: "(string \<Rightarrow> string) \<Rightarrow> string \<Rightarrow> server \<Rightarrow> server" where
  "load_pat H pat st =
     (if trim pat \<noteq> [] then
        (let hash = H (trim pat) in
         st\<lparr>validTokenHashes := insert hash (validTokenHashes st),
            logged := logged st @
              [\<lparr>level = ''info'', msg = ''Access token loaded'',
                data = [(''tokenHash'', Some (take 8 hash @ ''...''))]\<rparr>]\<rparr>)
      else st)"

text \<open>\<^verbatim>\<open>process.env.MCP_ACCESS_TOKENS?.split(',') || []\<close>: an unset variable gives no entries.\<close>

definition pats_of :: "string option \<Rightarrow> string list" where
  "pats_of env = (case env of None \<Rightarrow> [] | Some s \<Rightarrow> split_comma s)"

definition no_tokens_warning :: log_entry where
  "no_tokens_warning =
     \<lparr>level = ''warn'', msg = ''No access tokens configured. Server will reject all requests.'',
      data = []\<rparr>"

definition setupAuthentication :: "(string \<Rightarrow> string) \<Rightarrow> string option \<Rightarrow> server" where
  "setupAuthentication H env =
     (let pats = pats_of env in
      fold (load_pat H) pats
        \<lparr>validTokenHashes = {},
         logged = (if length pats = 0 then [no_tokens_warning] else [])\<rparr>)"

text \<open>
  An incoming request after Express has matched it against the routes of \<^verbatim>\<open>setupRoutes\<close>:
  the route (with the \<^verbatim>\<open>:id\<close> path parameter of the listing route), the
  \<^verbatim>\<open>Authorization\<close> header, the peer address, the parsed body and the clock reading
  used by the health reply.
\<close>

datatype route =
    GetHealth
  | PostMcp
  | PostToolsList
  | PostToolsCall
  | PostAirbnbSearch
  | PostAirbnbListing string
  | Unmatched

record request =
  route :: route
  authorization :: "string option"
  ip :: "string option"
  body :: json
  clock :: string

text \<open>
  \<^verbatim>\<open>authenticateToken\<close> either answers itself (\<open>Denied\<close> with the status and the body) or
  sets \<^verbatim>\<open>req.user = { tokenHash }\<close> and calls \<^verbatim>\<open>next()\<close> (\<open>Granted\<close>).
\<close>

datatype auth = Denied nat json | Granted string

definition missing_header_body :: json where
  "missing_header_body =
     JObj (fmap_of_list
       [(''error'', JStr ''Missing or invalid authorization header. Expected: Bearer <token>'')])"

definition invalid_token_body :: json where
  "invalid_token_body = JObj (fmap_of_list [(''error'', JStr ''Invalid access token'')])"

definition invalid_attempt :: "string \<Rightarrow> string option \<Rightarrow> log_entry" where
  "invalid_attempt tokenHash addr =
     \<lparr>level = ''warn'', msg = ''Invalid token attempt'',
      data = [(''tokenHash'', Some (take 8 tokenHash @ ''...'')), (''ip'', addr)]\<rparr>"

definition authenticateToken :: "(string \<Rightarrow> string) \<Rightarrow> server \<Rightarrow> request \<Rightarrow> auth \<times> server" where
  "authenticateToken H st req =
     (case authorization req of
        None \<Rightarrow> (Denied 401 missing_header_body, st)
      | Some authHeader \<Rightarrow>
          if authHeader = [] \<or> \<not> startsWith authHeader ''Bearer ''
          then (Denied 401 missing_header_body, st)
          else
            (let token = drop 7 authHeader;
                 tokenHash = H token
             in if tokenHash \<notin> validTokenHashes st
                then (Denied 401 invalid_token_body,
                      st\<lparr>logged := logged st @ [invalid_attempt tokenHash (ip req)]\<rparr>)
                else (Granted tokenHash, st)))"

section \<open>Conversion to string in template literals\<close>

text \<open>
  \<^verbatim>\<open>`${v}`\<close> converts \<open>v\<close> to a string. For a JSON value the conversion raises a
  \<^verbatim>\<open>TypeError\<close> (\<open>None\<close>) exactly when it meets an object with an own \<^verbatim>\<open>toString\<close>
  property, which shadows the inherited method by a value that cannot be called. How a
  number prints is the argument \<open>num\<close>: a safe integer prints all its decimal digits
  (\<open>show_int\<close>), a larger number as the built-in conversion has it.
\<close>

fun show_nat :: "nat \<Rightarrow> string" where
  "show_nat n =
     (if n < 10 then [''0123456789'' ! n]
      else show_nat (n div 10) @ [''0123456789'' ! (n mod 10)])"

declare show_nat.simps [simp del]

definition show_int :: "int \<Rightarrow> string" where
  "show_int i = (if i < 0 then ''-'' @ show_nat (nat (- i)) else show_nat (nat i))"

fun js_string :: "(int \<Rightarrow> string) \<Rightarrow> json \<Rightarrow> string option"
  and js_join :: "(int \<Rightarrow> string) \<Rightarrow> json list \<Rightarrow> string option" where
  "js_string num JNull = Some ''null''"
| "js_string num (JBool b) = Some (if b then ''true'' else ''false'')"
| "js_string num (JNum n) = Some (num n)"
| "js_string num (JStr s) = Some s"
| "js_string num (JArr xs) = js_join num xs"
| "js_string num (JObj m) =
     (if ''toString'' |\<in>| fmdom m then None else Some ''[object Object]'')"
| "js_join num [] = Some []"
| "js_join num [x] = (if x = JNull then Some [] else js_string num x)"
| "js_join num (x # y # ys) =
     (case (if x = JNull then Some [] else js_string num x) of
        None \<Rightarrow> None
      | Some a \<Rightarrow>
          (case js_join num (y # ys) of None \<Rightarrow> None | Some b \<Rightarrow> Some (a @ '','' @ b)))"

definition template :: "(int \<Rightarrow> string) \<Rightarrow> json option \<Rightarrow> string option" where
  "template num x = (case x of None \<Rightarrow> Some ''undefined'' | Some v \<Rightarrow> js_string num v)"

section \<open>Failures and collaborators\<close>

text \<open>
  The error codes that \<^verbatim>\<open>ErrorCode\<close> of the protocol library offers to the gateway, and
  what a \<^verbatim>\<open>throw\<close> can carry: an \<^verbatim>\<open>McpError\<close> (with the code and the message it was
  built from), another \<^verbatim>\<open>Error\<close> with its message, or a value that is no \<^verbatim>\<open>Error\<close>.
\<close>

datatype ErrorCode = ParseError | InvalidRequest | MethodNotFound | InvalidParams | InternalError

datatype thrown = McpError ErrorCode string | Error string | Thrown json

definition type_error :: thrown where
  "type_error = Error ''Cannot convert object to primitive value''"

text \<open>
  The two tool implementations of \<^verbatim>\<open>mcp-core\<close> are collaborators: each takes the
  argument value and either returns a result or throws. The catalog \<^verbatim>\<open>AIRBNB_TOOLS\<close> and
  \<^verbatim>\<open>VERSION\<close> come from the same module, the digest from the crypto library, and
  \<open>stringify v\<close> stands for the built-in \<^verbatim>\<open>JSON.stringify(v, null, 2)\<close>, and
  \<open>number_text\<close> for the built-in conversion of a number beyond the safe integers to a
  string (rounded digits, exponent notation from \<^verbatim>\<open>1e21\<close>).
\<close>

record gateway =
  digest :: "string \<Rightarrow> string"
  stringify :: "json \<Rightarrow> string"
  number_text :: "int \<Rightarrow> string"
  AIRBNB_TOOLS :: "json list"
  VERSION :: string
  handleAirbnbSearch :: "json \<Rightarrow> thrown + json"
  handleAirbnbListingDetails :: "json \<Rightarrow> thrown + json"

text \<open>A number inside a template literal.\<close>

definition show_number :: "gateway \<Rightarrow> int \<Rightarrow> string" where
  "show_number g n = (if \<bar>n\<bar> < 2 ^ 53 then show_int n else number_text g n)"

text \<open>
  The protocol library's \<^verbatim>\<open>McpError\<close> is an \<^verbatim>\<open>Error\<close> whose \<^verbatim>\<open>message\<close> property is
  \<^verbatim>\<open>`MCP error ${code}: ${message}`\<close>, built from the arguments of its constructor; the
  members of \<^verbatim>\<open>ErrorCode\<close> are the JSON-RPC numbers.
\<close>

definition code_number :: "ErrorCode \<Rightarrow> int" where
  "code_number c =
     (case c of
        ParseError \<Rightarrow> - 32700
      | InvalidRequest \<Rightarrow> - 32600
      | MethodNotFound \<Rightarrow> - 32601
      | InvalidParams \<Rightarrow> - 32602
      | InternalError \<Rightarrow> - 32603)"

definition mcp_error_message :: "ErrorCode \<Rightarrow> string \<Rightarrow> string" where
  "mcp_error_message c m = ''MCP error '' @ show_int (code_number c) @ '': '' @ m"

text \<open>\<^verbatim>\<open>error instanceof Error ? error.message : 'Unknown error'\<close>.\<close>

definition message_of :: "thrown \<Rightarrow> string" where
  "message_of e =
     (case e of
        McpError c m \<Rightarrow> mcp_error_message c m
      | Error m \<Rightarrow> m
      | Thrown v \<Rightarrow> ''Unknown error'')"

text \<open>\<^verbatim>\<open>error instanceof McpError ? error.code : ErrorCode.InternalError\<close>.\<close>

definition code_of :: "thrown \<Rightarrow> ErrorCode" where
  "code_of e = (case e of McpError c m \<Rightarrow> c | Error m \<Rightarrow> InternalError | Thrown v \<Rightarrow> InternalError)"

section \<open>The HTTP gateway\<close>

text \<open>\<^verbatim>\<open>HTTPMCPServer.callTool\<close>: the \<^verbatim>\<open>switch\<close> compares with strict equality.\<close>

definition callTool :: "gateway \<Rightarrow> json \<Rightarrow> json \<Rightarrow> thrown + json" where
  "callTool g name args =
     (if name = JStr ''airbnb_search'' then handleAirbnbSearch g args
      else if name = JStr ''airbnb_listing_details'' then handleAirbnbListingDetails g args
      else (case js_string (show_number g) name of
              None \<Rightarrow> Inl type_error
            | Some s \<Rightarrow> Inl (McpError MethodNotFound (''Unknown tool: '' @ s))))"

record MCPError =
  code :: ErrorCode
  message :: string

record MCPResponse =
  jsonrpc :: string
  id' :: "json option"
  result :: "json option"
  error :: "MCPError option"

text \<open>The \<^verbatim>\<open>switch (mcpRequest.method)\<close> of \<^verbatim>\<open>handleMCPRequest\<close>, with what it throws.\<close>

definition mcp_dispatch :: "gateway \<Rightarrow> json \<Rightarrow> thrown + json" where
  "mcp_dispatch g mcpRequest =
     (let method = field mcpRequest ''method''; params = field mcpRequest ''params'' in
      if method = Some (JStr ''tools/list'') then
        Inr (JObj (fmap_of_list [(''tools'', JArr (AIRBNB_TOOLS g))]))
      else if method = Some (JStr ''tools/call'') then
        (case opt_field params ''name'' of
           None \<Rightarrow> Inl (McpError InvalidParams ''Tool name is required'')
         | Some name \<Rightarrow>
             if \<not> truthy (Some name) then Inl (McpError InvalidParams ''Tool name is required'')
             else callTool g name (or_empty (opt_field params ''arguments'')))
      else (case template (show_number g) method of
              None \<Rightarrow> Inl type_error
            | Some s \<Rightarrow> Inl (McpError MethodNotFound (''Method not found: '' @ s))))"

definition handleMCPRequest :: "gateway \<Rightarrow> json \<Rightarrow> nat \<times> MCPResponse" where
  "handleMCPRequest g mcpRequest =
     (if \<not> truthy (field mcpRequest ''jsonrpc'') \<or> field mcpRequest ''jsonrpc'' \<noteq> Some (JStr ''2.0'')
      then (400, \<lparr>jsonrpc = ''2.0'', id' = Some (or_null (field mcpRequest ''id'')), result = None,
                  error = Some \<lparr>code = InvalidRequest, message = ''Invalid JSON-RPC version''\<rparr>\<rparr>)
      else
        (case mcp_dispatch g mcpRequest of
           Inr res \<Rightarrow>
             (200, \<lparr>jsonrpc = ''2.0'', id' = field mcpRequest ''id'', result = Some res, error = None\<rparr>)
         | Inl e \<Rightarrow>
             (400, \<lparr>jsonrpc = ''2.0'', id' = Some (or_null (field mcpRequest ''id'')), result = None,
                    error = Some \<lparr>code = code_of e, message = message_of e\<rparr>\<rparr>)))"

definition error_body :: "string \<Rightarrow> json" where
  "error_body m = JObj (fmap_of_list [(''error'', JStr m)])"

definition handleListTools :: "gateway \<Rightarrow> nat \<times> json" where
  "handleListTools g = (200, JObj (fmap_of_list [(''tools'', JArr (AIRBNB_TOOLS g))]))"

definition handleCallTool :: "gateway \<Rightarrow> json \<Rightarrow> nat \<times> json" where
  "handleCallTool g b =
     (case field b ''name'' of
        None \<Rightarrow> (400, error_body ''Tool name is required'')
      | Some name \<Rightarrow>
          if \<not> truthy (Some name) then (400, error_body ''Tool name is required'')
          else (case callTool g name (or_empty (field b ''arguments'')) of
                  Inr res \<Rightarrow> (200, res)
                | Inl e \<Rightarrow> (400, error_body (message_of e))))"

definition handleAirbnbSearchAPI :: "gateway \<Rightarrow> json \<Rightarrow> nat \<times> json" where
  "handleAirbnbSearchAPI g b =
     (case handleAirbnbSearch g b of
        Inr res \<Rightarrow> (200, res)
      | Inl e \<Rightarrow> (500, error_body (message_of e)))"

text \<open>
  The own enumerable properties that \<^verbatim>\<open>...req.body\<close> copies: those of an object, the
  indexed elements of an array or a string, none of any other value.
\<close>

definition own_props :: "json \<Rightarrow> (string, json) fmap" where
  "own_props v =
     (case v of
        JObj m \<Rightarrow> m
      | JArr xs \<Rightarrow> fmap_of_list (zip (map show_nat [0..<length xs]) xs)
      | JStr s \<Rightarrow> fmap_of_list (zip (map show_nat [0..<length s]) (map (\<lambda>c. JStr [c]) s))
      | _ \<Rightarrow> fmempty)"

text \<open>\<^verbatim>\<open>{ id, ...req.body }\<close>: the path parameter is written first, then the body's properties.\<close>

definition listing_params :: "string \<Rightarrow> json \<Rightarrow> json" where
  "listing_params pid b = JObj (fmupd ''id'' (JStr pid) fmempty ++\<^sub>f own_props b)"

definition handleAirbnbListingAPI :: "gateway \<Rightarrow> string \<Rightarrow> json \<Rightarrow> nat \<times> json" where
  "handleAirbnbListingAPI g pid b =
     (case handleAirbnbListingDetails g (listing_params pid b) of
        Inr res \<Rightarrow> (200, res)
      | Inl e \<Rightarrow> (500, error_body (message_of e)))"

text \<open>
  The terminal error handler of \<^verbatim>\<open>setupRoutes\<close>. Express calls it with an error raised by
  the middleware ahead of the routes; the route handlers are \<^verbatim>\<open>async\<close> functions that
  catch their own exceptions. It logs the error's message and stack and answers with a
  fixed body.
\<close>

definition generic_error_body :: json where
  "generic_error_body =
     JObj (fmap_of_list
       [(''error'', JStr ''Internal Server Error''),
        (''message'', JStr ''An unexpected error occurred'')])"

definition errorHandler ::
  "string option \<Rightarrow> string option \<Rightarrow> string \<Rightarrow> string \<Rightarrow> (nat \<times> json) \<times> log_entry" where
  "errorHandler err_message err_stack path method =
     ((500, generic_error_body),
      \<lparr>level = ''error'', msg = ''HTTP Server Error'',
       data = [(''error'', err_message), (''stack'', err_stack),
               (''path'', Some path), (''method'', Some method)]\<rparr>)"

definition health_body :: "gateway \<Rightarrow> string \<Rightarrow> json" where
  "health_body g now =
     JObj (fmap_of_list
       [(''status'', JStr ''healthy''), (''version'', JStr (VERSION g)),
        (''timestamp'', JStr now), (''service'', JStr ''airbnb-mcp-server'')])"

definition not_found_body :: json where
  "not_found_body =
     JObj (fmap_of_list
       [(''error'', JStr ''Not Found''),
        (''message'', JStr ''The requested endpoint does not exist''),
        (''availableEndpoints'',
           JArr [JStr ''GET /health'', JStr ''POST /mcp'', JStr ''POST /api/tools/list'',
                 JStr ''POST /api/tools/call'', JStr ''POST /api/airbnb/search'',
                 JStr ''POST /api/airbnb/listing/:id''])])"

text \<open>
  A reply is a status with either a plain JSON body or, on \<^verbatim>\<open>/mcp\<close>, an
  \<^verbatim>\<open>MCPResponse\<close>.
\<close>

datatype reply = Json nat json | Rpc nat MCPResponse

definition status_of :: "reply \<Rightarrow> nat" where
  "status_of r = (case r of Json s b \<Rightarrow> s | Rpc s m \<Rightarrow> s)"

definition route_handler :: "gateway \<Rightarrow> request \<Rightarrow> reply" where
  "route_handler g req =
     (case route req of
        PostMcp \<Rightarrow> (case handleMCPRequest g (body req) of (s, m) \<Rightarrow> Rpc s m)
      | PostToolsList \<Rightarrow> (case handleListTools g of (s, b) \<Rightarrow> Json s b)
      | PostToolsCall \<Rightarrow> (case handleCallTool g (body req) of (s, b) \<Rightarrow> Json s b)
      | PostAirbnbSearch \<Rightarrow> (case handleAirbnbSearchAPI g (body req) of (s, b) \<Rightarrow> Json s b)
      | PostAirbnbListing pid \<Rightarrow>
          (case handleAirbnbListingAPI g pid (body req) of (s, b) \<Rightarrow> Json s b)
      | GetHealth \<Rightarrow> Json 200 (health_body g (clock req))
      | Unmatched \<Rightarrow> Json 404 not_found_body)"

text \<open>
  The routes as \<^verbatim>\<open>setupRoutes\<close> registers them: the health check and the 404 fallback
  run without authentication, every other route runs \<^verbatim>\<open>authenticateToken\<close> first.
\<close>

definition app :: "gateway \<Rightarrow> server \<Rightarrow> request \<Rightarrow> reply \<times> server" where
  "app g st req =
     (if route req = GetHealth \<or> route req = Unmatched then (route_handler g req, st)
      else (case authenticateToken (digest g) st req of
              (Denied s b, st') \<Rightarrow> (Json s b, st')
            | (Granted h, st') \<Rightarrow> (route_handler g req, st')))"

text \<open>The requests served one after the other during the life of the process.\<close>

fun run :: "gateway \<Rightarrow> server \<Rightarrow> request list \<Rightarrow> reply list \<times> server" where
  "run g st [] = ([], st)"
| "run g st (r # rs) =
     (case app g st r of
        (y, st') \<Rightarrow> (case run g st' rs of (ys, st'') \<Rightarrow> (y # ys, st'')))"

section \<open>The stdio runner\<close>

text \<open>
  The handlers that \<^verbatim>\<open>runStdioServer\<close> registers. The protocol library validates a
  request before it calls them, so the tool name is a string and the arguments are an
  object or absent. The calls to the logger only write lines and are left out; the read of
  \<^verbatim>\<open>result.isError\<close> made for one of them raises on \<^verbatim>\<open>null\<close> and is kept.
\<close>

definition stdio_listTools :: "gateway \<Rightarrow> json" where
  "stdio_listTools g = JObj (fmap_of_list [(''tools'', JArr (AIRBNB_TOOLS g))])"

definition stdio_try :: "gateway \<Rightarrow> string \<Rightarrow> json option \<Rightarrow> thrown + json" where
  "stdio_try g name arguments =
     (if name = [] then Inl (McpError InvalidParams ''Tool name is required'')
      else
        (case arguments of
           None \<Rightarrow> Inl (McpError InvalidParams ''Tool arguments are required'')
         | Some a \<Rightarrow>
             if \<not> truthy (Some a) then Inl (McpError InvalidParams ''Tool arguments are required'')
             else
               (case (if name = ''airbnb_search'' then handleAirbnbSearch g a
                      else if name = ''airbnb_listing_details'' then handleAirbnbListingDetails g a
                      else Inl (McpError MethodNotFound (''Unknown tool: '' @ name))) of
                  Inl e \<Rightarrow> Inl e
                | Inr res \<Rightarrow>
                    if res = JNull then
                      Inl (Error (''Cannot read properties of null (reading '' @ [CHR 0x27] @
                                  ''isError'' @ [CHR 0x27] @ '')''))
                    else Inr res)))"

definition error_payload :: "gateway \<Rightarrow> string \<Rightarrow> string \<Rightarrow> json" where
  "error_payload g now m =
     JObj (fmap_of_list
       [(''content'',
           JArr [JObj (fmap_of_list
             [(''type'', JStr ''text''),
              (''text'', JStr (stringify g
                 (JObj (fmap_of_list [(''error'', JStr m), (''timestamp'', JStr now)]))))])]),
        (''isError'', JBool True)])"

text \<open>
  The \<^verbatim>\<open>catch\<close> block: an \<^verbatim>\<open>McpError\<close> is thrown again, anything else becomes a
  result marked \<^verbatim>\<open>isError\<close> that carries \<^verbatim>\<open>error.message\<close>, or \<^verbatim>\<open>String(error)\<close> for a
  value that is no \<^verbatim>\<open>Error\<close>.
\<close>

definition stdio_callTool :: "gateway \<Rightarrow> string \<Rightarrow> string \<Rightarrow> json option \<Rightarrow> thrown + json" where
  "stdio_callTool g now name arguments =
     (case stdio_try g name arguments of
        Inr res \<Rightarrow> Inr res
      | Inl (McpError c m) \<Rightarrow> Inl (McpError c m)
      | Inl (Error m) \<Rightarrow> Inr (error_payload g now m)
      | Inl (Thrown v) \<Rightarrow>
          (case js_string (show_number g) v of
             None \<Rightarrow> Inl type_error
           | Some s \<Rightarrow> Inr (error_payload g now s)))"

section \<open>Names used in the statements\<close>

text \<open>
  The tokens the store ends up accepting, in the words of the token store's contract:
  the entries of the configured list, trimmed, without the empty ones.
\<close>

definition configured_tokens :: "string option \<Rightarrow> string list" where
  "configured_tokens env = filter (\<lambda>t. t \<noteq> []) (map trim (pats_of env))"

text \<open>The line \<^verbatim>\<open>setupAuthentication\<close> logs for a loaded token, as a function of the digest.\<close>

definition token_loaded :: "string \<Rightarrow> log_entry" where
  "token_loaded hash =
     \<lparr>level = ''info'', msg = ''Access token loaded'',
      data = [(''tokenHash'', Some (take 8 hash @ ''...''))]\<rparr>"

text \<open>
  A gateway for the examples: both tools answer with the arguments they were called with,
  so a reply shows what was forwarded; string reversal stands in for the digest, and the
  built-in conversions, which no example reaches, give the empty string.
\<close>

definition echo_gateway :: gateway where
  "echo_gateway =
     \<lparr>digest = rev, stringify = (\<lambda>v. []), number_text = (\<lambda>n. []),
      AIRBNB_TOOLS = [JObj (fmap_of_list [(''name'', JStr ''airbnb_search'')]),
                      JObj (fmap_of_list [(''name'', JStr ''airbnb_listing_details'')])],
      VERSION = ''0.1.3'',
      handleAirbnbSearch = (\<lambda>a. Inr a),
      handleAirbnbListingDetails = (\<lambda>a. Inr a)\<rparr>"

definition request_with :: "route \<Rightarrow> string option \<Rightarrow> json \<Rightarrow> request" where
  "request_with r h b = \<lparr>route = r, authorization = h, ip = Some ''10.0.0.7'', body = b, clock = ''t0''\<rparr>"

text \<open>
  A request that reaches \<^verbatim>\<open>authenticateToken\<close> with a well-formed header whose token's
  digest is not in the set, and the line logged for it.
\<close>

definition bad_token :: "(string \<Rightarrow> string) \<Rightarrow> string set \<Rightarrow> request \<Rightarrow> bool" where
  "bad_token H V r =
     (route r \<noteq> GetHealth \<and> route r \<noteq> Unmatched \<and>
      (case authorization r of
         None \<Rightarrow> False
       | Some h \<Rightarrow> h \<noteq> [] \<and> startsWith h ''Bearer '' \<and> H (drop 7 h) \<notin> V))"

definition attempt_line :: "(string \<Rightarrow> string) \<Rightarrow> request \<Rightarrow> log_entry" where
  "attempt_line H r =
     invalid_attempt (H (drop 7 (case authorization r of None \<Rightarrow> [] | Some h \<Rightarrow> h))) (ip r)"

text \<open>A gateway whose tools throw an \<^verbatim>\<open>Error\<close> with the given message.\<close>

definition failing_gateway :: "string \<Rightarrow> gateway" where
  "failing_gateway m =
     echo_gateway\<lparr>handleAirbnbSearch := (\<lambda>a. Inl (Error m)),
                  handleAirbnbListingDetails := (\<lambda>a. Inl (Error m))\<rparr>"

text \<open>What a reply on \<^verbatim>\<open>/mcp\<close> carries: the tools of its result, the code of its error.\<close>

definition result_tools :: "MCPResponse \<Rightarrow> json list option" where
  "result_tools r =
     (case result r of
        None \<Rightarrow> None
      | Some v \<Rightarrow> (case field v ''tools'' of Some (JArr ts) \<Rightarrow> Some ts | _ \<Rightarrow> None))"

definition error_code :: "MCPResponse \<Rightarrow> ErrorCode option" where
  "error_code r = map_option code (error r)"

text \<open>A JSON-RPC 2.0 request body with the given id, method and params.\<close>

definition rpc_request :: "json option \<Rightarrow> string \<Rightarrow> json option \<Rightarrow> json" where
  "rpc_request i m p =
     JObj (fmap_of_list
       ([(''jsonrpc'', JStr ''2.0''), (''method'', JStr m)] @
        (case i of None \<Rightarrow> [] | Some v \<Rightarrow> [(''id'', v)]) @
        (case p of None \<Rightarrow> [] | Some v \<Rightarrow> [(''params'', v)])))"

section \<open>The listing alias merges the path parameter under the body\<close>

lemma show_nat_digits: "set (show_nat n) \<subseteq> set ''0123456789''"
proof (induction n rule: show_nat.induct)
  case (1 n)
  show ?case
  proof (cases "n < 10")
    case True
    then have "n \<in> {0,1,2,3,4,5,6,7,8,9}" by auto
    then show ?thesis by (subst show_nat.simps) auto
  next
    case False
    have "n mod 10 \<in> {0,1,2,3,4,5,6,7,8,9}" by (simp; presburger)
    then have "''0123456789'' ! (n mod 10) \<in> set ''0123456789''" by auto
    with 1 False show ?thesis by (subst show_nat.simps) auto
  qed
qed

lemma show_nat_not_id: "show_nat n \<noteq> ''id''"
proof
  assume "show_nat n = ''id''"
  then have "CHR ''i'' \<in> set (show_nat n)" by simp
  with show_nat_digits[of n] show False by auto
qed

lemma index_keys_other: "\<forall>n. show_nat n \<noteq> k \<Longrightarrow> map_of (zip (map show_nat ns) vs) k = None"
  by (induction ns arbitrary: vs) (auto simp: zip_Cons1 split: list.splits)

lemma index_keys_no_id: "map_of (zip (map show_nat ns) vs) ''id'' = None"
  by (rule index_keys_other) (simp add: show_nat_not_id)

lemma own_props_id: "fmlookup (own_props b) ''id'' = field b ''id''"
  by (cases b) (simp_all add: own_props_def fmlookup_of_list index_keys_no_id)

lemma listing_params_id:
  "field (listing_params pid b) ''id'' = (case field b ''id'' of Some v \<Rightarrow> Some v | None \<Rightarrow> Some (JStr pid))"
proof -
  have "field (listing_params pid b) ''id'' =
          (case fmlookup (own_props b) ''id'' of Some v \<Rightarrow> Some v | None \<Rightarrow> Some (JStr pid))"
    by (auto simp: listing_params_def fmlookup_dom_iff split: option.splits)
  then show ?thesis by (simp add: own_props_id)
qed

text \<open>
  C1, as the code has it: the detail tool is called with \<^verbatim>\<open>{ id, ...req.body }\<close>, whose
  \<^verbatim>\<open>id\<close> is the body's when the body has one and the path parameter's only otherwise.
\<close>

theorem listing_forwards_body_id:
  "handleAirbnbListingAPI g pid b =
     (case handleAirbnbListingDetails g (listing_params pid b) of
        Inr res \<Rightarrow> (200, res)
      | Inl e \<Rightarrow> (500, error_body (message_of e)))
   \<and> field (listing_params pid b) ''id'' =
       (case field b ''id'' of Some v \<Rightarrow> Some v | None \<Rightarrow> Some (JStr pid))"
  by (simp add: handleAirbnbListingAPI_def listing_params_id)

theorem listing_forwards_body_id_witness:
  "field (listing_params ''42'' (JObj (fmap_of_list [(''id'', JNum 99)]))) ''id'' = Some (JNum 99)
   \<and> field (listing_params ''42'' (JObj (fmap_of_list [(''adults'', JNum 2)]))) ''id'' = Some (JStr ''42'')"
  using listing_forwards_body_id [of echo_gateway "''42''" "JObj (fmap_of_list [(''id'', JNum 99)])"]
    listing_forwards_body_id [of echo_gateway "''42''" "JObj (fmap_of_list [(''adults'', JNum 2)])"]
  by simp

text \<open>
  C1 as stated fails: with \<^verbatim>\<open>id=42\<close> in the path and \<^verbatim>\<open>{id: 99}\<close> in the body the tool
  receives \<^verbatim>\<open>id = 99\<close>, as the reply of the echoing tool shows.
\<close>

theorem listing_path_precedence_counterexample:
  "fst (handleAirbnbListingAPI echo_gateway ''42'' (JObj (fmap_of_list [(''id'', JNum 99)]))) = 200
   \<and> field (snd (handleAirbnbListingAPI echo_gateway ''42'' (JObj (fmap_of_list [(''id'', JNum 99)]))))
         ''id'' = Some (JNum 99)
   \<and> field (listing_params ''42'' (JObj (fmap_of_list [(''id'', JNum 99)]))) ''id'' \<noteq> Some (JStr ''42'')"
  by (simp add: handleAirbnbListingAPI_def echo_gateway_def listing_params_def own_props_def)

section \<open>The token store\<close>

lemma fold_load_pat:
  "fold (load_pat H) ps st =
     st\<lparr>validTokenHashes := validTokenHashes st \<union> H ` set (filter (\<lambda>t. t \<noteq> []) (map trim ps)),
        logged := logged st @ map (\<lambda>t. token_loaded (H t)) (filter (\<lambda>t. t \<noteq> []) (map trim ps))\<rparr>"
proof (induction ps arbitrary: st)
  case Nil
  then show ?case by simp
next
  case (Cons p ps)
  show ?case
    by (simp add: Cons.IH) (auto simp: load_pat_def Let_def token_loaded_def)
qed

lemma setup_explicit:
  "setupAuthentication H env =
     \<lparr>validTokenHashes = H ` set (configured_tokens env),
      logged = (if pats_of env = [] then [no_tokens_warning] else []) @
               map (\<lambda>t. token_loaded (H t)) (configured_tokens env)\<rparr>"
  by (simp add: setupAuthentication_def Let_def fold_load_pat configured_tokens_def)

lemma bearer_form: "(h \<noteq> [] \<and> startsWith h ''Bearer '') = (\<exists>t. h = ''Bearer '' @ t)"
proof
  assume "h \<noteq> [] \<and> startsWith h ''Bearer ''"
  then have "take (length ''Bearer '') h = ''Bearer ''" unfolding startsWith_def by blast
  then have "h = ''Bearer '' @ drop (length ''Bearer '') h" by (metis append_take_drop_id)
  then show "\<exists>t. h = ''Bearer '' @ t" ..
next
  assume "\<exists>t. h = ''Bearer '' @ t"
  then show "h \<noteq> [] \<and> startsWith h ''Bearer ''" by (auto simp: startsWith_def)
qed

lemma auth_bearer:
  "authorization req = Some (''Bearer '' @ t) \<Longrightarrow>
   authenticateToken H st req =
     (if H t \<in> validTokenHashes st then (Granted (H t), st)
      else (Denied 401 invalid_token_body, st\<lparr>logged := logged st @ [invalid_attempt (H t) (ip req)]\<rparr>))"
  by (simp add: authenticateToken_def startsWith_def Let_def)

lemma auth_other:
  "\<not> (\<exists>t. authorization req = Some (''Bearer '' @ t)) \<Longrightarrow>
   authenticateToken H st req = (Denied 401 missing_header_body, st)"
  using bearer_form by (auto simp: authenticateToken_def split: option.splits)

text \<open>
  C2. The configured tokens are the entries the store digests: each entry of the list,
  trimmed, the empty ones left out. Where the digest does not collide on the presented
  token and the configured tokens, authentication succeeds exactly on a header
  \<^verbatim>\<open>Bearer <token>\<close> whose token is one of the configured tokens, and the identity carries
  the token's digest; any other token, a strict prefix or substring of a configured one
  included, is answered 401 with the invalid-token body, and a header of another form 401
  with the missing-header body. Without the assumption on the digest the same holds with
  equality of digests in place of equality of tokens.
\<close>

theorem authenticateToken_decides:
  "(fst (authenticateToken H (setupAuthentication H env) req) = Granted d \<longleftrightarrow>
      (\<exists>t. authorization req = Some (''Bearer '' @ t) \<and> d = H t \<and>
           H t \<in> H ` set (configured_tokens env)))
   \<and> ((\<nexists>t. authorization req = Some (''Bearer '' @ t)) \<longrightarrow>
        fst (authenticateToken H (setupAuthentication H env) req) = Denied 401 missing_header_body)
   \<and> (\<forall>t. authorization req = Some (''Bearer '' @ t) \<and> H t \<notin> H ` set (configured_tokens env) \<longrightarrow>
        fst (authenticateToken H (setupAuthentication H env) req) = Denied 401 invalid_token_body)
   \<and> (\<forall>t. authorization req = Some (''Bearer '' @ t) \<and>
           inj_on H (insert t (set (configured_tokens env))) \<longrightarrow>
        fst (authenticateToken H (setupAuthentication H env) req) =
          (if t \<in> set (configured_tokens env) then Granted (H t) else Denied 401 invalid_token_body))"
proof (cases "\<exists>t. authorization req = Some (''Bearer '' @ t)")
  case True
  then obtain t where t: "authorization req = Some (''Bearer '' @ t)" ..
  have inj: "inj_on H (insert t (set (configured_tokens env))) \<Longrightarrow>
        (H t \<in> H ` set (configured_tokens env)) = (t \<in> set (configured_tokens env))"
    by (auto simp: inj_on_def)
  from t inj show ?thesis
    by (auto simp: auth_bearer setup_explicit)
next
  case False
  then show ?thesis by (auto simp: auth_other)
qed


theorem authenticateToken_decides_witness:
  "fst (authenticateToken rev (setupAuthentication rev (Some ''a, b''))
          (request_with PostMcp (Some ''Bearer b'') (JObj fmempty))) = Granted ''b''
   \<and> fst (authenticateToken rev (setupAuthentication rev (Some ''tok''))
          (request_with PostMcp (Some ''Bearer to'') (JObj fmempty))) = Denied 401 invalid_token_body
   \<and> fst (authenticateToken rev (setupAuthentication rev (Some ''tok''))
          (request_with PostMcp (Some ''bearer tok'') (JObj fmempty))) = Denied 401 missing_header_body"
  using authenticateToken_decides [of rev "Some ''a, b''"
          "request_with PostMcp (Some ''Bearer b'') (JObj fmempty)" "''b''"]
    authenticateToken_decides [of rev "Some ''tok''"
          "request_with PostMcp (Some ''Bearer to'') (JObj fmempty)" "''b''"]
    authenticateToken_decides [of rev "Some ''tok''"
          "request_with PostMcp (Some ''bearer tok'') (JObj fmempty)" "''b''"]
  by (simp add: request_with_def configured_tokens_def pats_of_def trim_def is_ws_def)

section \<open>The server state over the life of the process\<close>

lemma auth_state:
  "snd (authenticateToken H st r) =
     st\<lparr>logged := logged st @
          (case authorization r of
             None \<Rightarrow> []
           | Some h \<Rightarrow> if h \<noteq> [] \<and> startsWith h ''Bearer '' \<and> H (drop 7 h) \<notin> validTokenHashes st
                       then [attempt_line H r] else [])\<rparr>"
  by (auto simp: authenticateToken_def attempt_line_def Let_def split: option.splits)

lemma app_state:
  "snd (app g st r) =
     st\<lparr>logged := logged st @ (if bad_token (digest g) (validTokenHashes st) r then [attempt_line (digest g) r] else [])\<rparr>"
proof (cases "route r = GetHealth \<or> route r = Unmatched")
  case True
  then show ?thesis by (auto simp: app_def bad_token_def)
next
  case False
  have "snd (app g st r) = snd (authenticateToken (digest g) st r)"
    using False by (auto simp: app_def split: prod.splits auth.splits)
  with False show ?thesis
    by (auto simp: auth_state bad_token_def split: option.splits)
qed

lemma run_state:
  "snd (run g st rs) =
     st\<lparr>logged := logged st @ map (attempt_line (digest g)) (filter (bad_token (digest g) (validTokenHashes st)) rs)\<rparr>"
proof (induction rs arbitrary: st)
  case Nil
  then show ?case by simp
next
  case (Cons r rs)
  have step: "snd (run g st (r # rs)) = snd (run g (snd (app g st r)) rs)"
    by (simp split: prod.splits)
  show ?case
    unfolding step Cons.IH
    by (simp add: app_state)
qed

lemma empty_store_denies:
  "validTokenHashes st = {} \<Longrightarrow> route r \<noteq> GetHealth \<Longrightarrow> route r \<noteq> Unmatched \<Longrightarrow>
   status_of (fst (app g st r)) = 401"
  by (auto simp: app_def authenticateToken_def status_of_def Let_def split: option.splits)

lemma app_granted:
  "fst (authenticateToken (digest g) st r) = Granted h \<Longrightarrow> fst (app g st r) = route_handler g r"
  by (cases "authenticateToken (digest g) st r") (auto simp: app_def)

text \<open>
  C6, at the input where the code departs from it. Whenever no entry survives trimming the
  digest set is empty and every request on an authenticated route is answered 401. The
  warning, however, is tied to \<^verbatim>\<open>pats.length === 0\<close>: for \<^verbatim>\<open>MCP_ACCESS_TOKENS=""\<close>
  the list is \<^verbatim>\<open>[""]\<close>, no entry survives, and nothing is logged.
\<close>

theorem empty_entries_no_warning:
  "(configured_tokens env = [] \<longrightarrow>
      validTokenHashes (setupAuthentication (digest g) env) = {} \<and>
      (\<forall>r. route r \<noteq> GetHealth \<and> route r \<noteq> Unmatched \<longrightarrow>
           status_of (fst (app g (setupAuthentication (digest g) env) r)) = 401))
   \<and> pats_of (Some []) = [[]]
   \<and> configured_tokens (Some []) = []
   \<and> logged (setupAuthentication H (Some [])) = []"
  by (auto simp: setup_explicit empty_store_denies configured_tokens_def pats_of_def trim_def)

theorem empty_entries_no_warning_witness:
  "validTokenHashes (setupAuthentication rev (Some '' , '')) = {}
   \<and> logged (setupAuthentication rev (Some '' , '')) = []
   \<and> status_of (fst (app echo_gateway (setupAuthentication rev (Some '' , ''))
         (request_with PostToolsList (Some ''Bearer '') (JObj fmempty)))) = 401"
  using empty_entries_no_warning [of "Some '' , ''" echo_gateway rev]
  by (simp add: configured_tokens_def pats_of_def trim_def is_ws_def echo_gateway_def request_with_def
        setup_explicit)

text \<open>
  C7: the set built by \<^verbatim>\<open>setupAuthentication\<close> holds exactly the digests of the trimmed
  entries, its log holds the warning and, per token, a line whose only datum is the first
  eight characters of the digest followed by \<^verbatim>\<open>...\<close>; serving any sequence of requests
  leaves the set as it is and adds, per rejected token, one line with the same truncated
  digest and the peer address. Tokens enter the state and the log through the digest only.
\<close>

theorem token_store_digests_only:
  "setupAuthentication H env =
     \<lparr>validTokenHashes = H ` set (configured_tokens env),
      logged = (if pats_of env = [] then [no_tokens_warning] else []) @
               map (\<lambda>t. token_loaded (H t)) (configured_tokens env)\<rparr>
   \<and> snd (run g st rs) =
       st\<lparr>logged := logged st @
            map (attempt_line (digest g)) (filter (bad_token (digest g) (validTokenHashes st)) rs)\<rparr>
   \<and> validTokenHashes (snd (run g (setupAuthentication (digest g) env) rs)) =
       digest g ` set (configured_tokens env)
   \<and> data (token_loaded (H t)) = [(''tokenHash'', Some (take 8 (H t) @ ''...''))]
   \<and> data (attempt_line H r) =
       [(''tokenHash'', Some (take 8 (H (drop 7 (case authorization r of None \<Rightarrow> [] | Some h \<Rightarrow> h))) @ ''...'')),
        (''ip'', ip r)]"
proof -
  have hashes: "validTokenHashes (snd (run g (setupAuthentication (digest g) env) rs)) =
       digest g ` set (configured_tokens env)"
    by (simp add: run_state) (simp add: setup_explicit)
  have lines: "data (token_loaded (H t)) = [(''tokenHash'', Some (take 8 (H t) @ ''...''))]"
    "data (attempt_line H r) =
       [(''tokenHash'', Some (take 8 (H (drop 7 (case authorization r of None \<Rightarrow> [] | Some h \<Rightarrow> h))) @ ''...'')),
        (''ip'', ip r)]"
    by (simp_all add: token_loaded_def attempt_line_def invalid_attempt_def)
  from setup_explicit [of H env] run_state [of g st rs] hashes lines show ?thesis
    by blast
qed

theorem token_store_digests_only_witness:
  "snd (run echo_gateway (setupAuthentication rev (Some ''alpha-secret, b''))
          [request_with PostMcp (Some ''Bearer wrong-secret'') (JObj fmempty),
           request_with PostToolsList (Some ''Bearer alpha-secret'') (JObj fmempty)])
     = \<lparr>validTokenHashes = {''terces-ahpla'', ''b''},
        logged = [token_loaded ''terces-ahpla'', token_loaded ''b'',
                  invalid_attempt ''terces-gnorw'' (Some ''10.0.0.7'')]\<rparr>
   \<and> data (token_loaded ''terces-ahpla'') = [(''tokenHash'', Some ''terces-a...'')]"
  using token_store_digests_only [of rev "Some ''alpha-secret, b''" echo_gateway
          "setupAuthentication rev (Some ''alpha-secret, b'')"
          "[request_with PostMcp (Some ''Bearer wrong-secret'') (JObj fmempty),
            request_with PostToolsList (Some ''Bearer alpha-secret'') (JObj fmempty)]"
          "''alpha-secret''" "request_with PostMcp (Some ''Bearer wrong-secret'') (JObj fmempty)"]
  by (simp add: configured_tokens_def pats_of_def trim_def is_ws_def echo_gateway_def request_with_def
        setup_explicit bad_token_def startsWith_def attempt_line_def token_loaded_def)

section \<open>The JSON-RPC endpoint\<close>

lemma mcp_bad_version:
  "field b ''jsonrpc'' \<noteq> Some (JStr ''2.0'') \<Longrightarrow>
   handleMCPRequest g b =
     (400, \<lparr>jsonrpc = ''2.0'', id' = Some (or_null (field b ''id'')), result = None,
            error = Some \<lparr>code = InvalidRequest, message = ''Invalid JSON-RPC version''\<rparr>\<rparr>)"
  by (simp add: handleMCPRequest_def)

lemma mcp_good_version:
  "field b ''jsonrpc'' = Some (JStr ''2.0'') \<Longrightarrow>
   handleMCPRequest g b =
     (case mcp_dispatch g b of
        Inr res \<Rightarrow>
          (200, \<lparr>jsonrpc = ''2.0'', id' = field b ''id'', result = Some res, error = None\<rparr>)
      | Inl e \<Rightarrow>
          (400, \<lparr>jsonrpc = ''2.0'', id' = Some (or_null (field b ''id'')), result = None,
                 error = Some \<lparr>code = code_of e, message = message_of e\<rparr>\<rparr>))"
  by (simp add: handleMCPRequest_def)

lemma dispatch_list:
  "field b ''method'' = Some (JStr ''tools/list'') \<Longrightarrow>
   mcp_dispatch g b = Inr (JObj (fmap_of_list [(''tools'', JArr (AIRBNB_TOOLS g))]))"
  by (simp add: mcp_dispatch_def)

lemma dispatch_call:
  "field b ''method'' = Some (JStr ''tools/call'') \<Longrightarrow>
   mcp_dispatch g b =
     (if \<not> truthy (opt_field (field b ''params'') ''name'')
      then Inl (McpError InvalidParams ''Tool name is required'')
      else (case opt_field (field b ''params'') ''name'' of
              None \<Rightarrow> Inl (McpError InvalidParams ''Tool name is required'')
            | Some name \<Rightarrow> callTool g name (or_empty (opt_field (field b ''params'') ''arguments''))))"
  by (auto simp: mcp_dispatch_def Let_def split: option.splits)

lemma dispatch_other:
  "field b ''method'' \<noteq> Some (JStr ''tools/list'') \<Longrightarrow>
   field b ''method'' \<noteq> Some (JStr ''tools/call'') \<Longrightarrow>
   mcp_dispatch g b =
     (case template (show_number g) (field b ''method'') of
        None \<Rightarrow> Inl type_error
      | Some s \<Rightarrow> Inl (McpError MethodNotFound (''Method not found: '' @ s)))"
  by (simp add: mcp_dispatch_def Let_def)

lemma callTool_unknown:
  "n \<noteq> ''airbnb_search'' \<Longrightarrow> n \<noteq> ''airbnb_listing_details'' \<Longrightarrow>
   callTool g (JStr n) args = Inl (McpError MethodNotFound (''Unknown tool: '' @ n))"
  by (simp add: callTool_def)

lemma mcp_status: "fst (handleMCPRequest g b) = 200 \<or> fst (handleMCPRequest g b) = 400"
  by (auto simp: handleMCPRequest_def split: sum.splits)

lemma mcp_shape:
  "(fst (handleMCPRequest g b) = 200 \<longleftrightarrow> error (snd (handleMCPRequest g b)) = None) \<and>
   (fst (handleMCPRequest g b) = 400 \<longleftrightarrow> result (snd (handleMCPRequest g b)) = None) \<and>
   (result (snd (handleMCPRequest g b)) = None \<longleftrightarrow> error (snd (handleMCPRequest g b)) \<noteq> None)"
  by (auto simp: handleMCPRequest_def split: sum.splits)

lemma mcp_ids:
  "(error (snd (handleMCPRequest g b)) \<noteq> None \<longrightarrow>
      id' (snd (handleMCPRequest g b)) = Some (or_null (field b ''id''))) \<and>
   (result (snd (handleMCPRequest g b)) \<noteq> None \<longrightarrow>
      id' (snd (handleMCPRequest g b)) = field b ''id'')"
  by (auto simp: handleMCPRequest_def split: sum.splits)

lemma or_null_falsy: "\<not> truthy i \<Longrightarrow> or_null i = JNull"
  by (cases i) (auto simp: or_null_def)

lemma or_null_truthy: "truthy i \<Longrightarrow> Some (or_null i) = i"
  by (cases i) (simp_all add: or_null_def)

lemma or_null_echo: "Some (or_null i) = i \<longleftrightarrow> truthy i \<or> i = Some JNull"
  by (cases i) (auto simp: or_null_def)

lemma code_text:
  "show_int (code_number c) =
     (case c of
        ParseError \<Rightarrow> ''-32700''
      | InvalidRequest \<Rightarrow> ''-32600''
      | MethodNotFound \<Rightarrow> ''-32601''
      | InvalidParams \<Rightarrow> ''-32602''
      | InternalError \<Rightarrow> ''-32603'')"
  by (cases c) (simp_all add: code_number_def show_int_def show_nat.simps)

lemma stdio_no_arguments:
  "name \<noteq> [] \<Longrightarrow>
   stdio_callTool g now name None = Inl (McpError InvalidParams ''Tool arguments are required'')"
  by (simp add: stdio_callTool_def stdio_try_def)

lemma dispatch_no_arguments:
  "field b ''method'' = Some (JStr ''tools/call'') \<Longrightarrow>
   opt_field (field b ''params'') ''name'' = Some (JStr n) \<Longrightarrow> n \<noteq> [] \<Longrightarrow>
   opt_field (field b ''params'') ''arguments'' = None \<Longrightarrow>
   mcp_dispatch g b = callTool g (JStr n) (JObj fmempty)"
  by (simp add: dispatch_call or_empty_def)

section \<open>Replies of the JSON-RPC endpoint\<close>

text \<open>
  C4: on \<^verbatim>\<open>/mcp\<close>, reached after authentication, a wrong or missing version tag is
  answered 400 with \<^verbatim>\<open>InvalidRequest\<close>, an unknown or missing method 400 with
  \<^verbatim>\<open>MethodNotFound\<close>, \<^verbatim>\<open>tools/call\<close> without a name 400 with \<^verbatim>\<open>InvalidParams\<close>,
  \<^verbatim>\<open>tools/call\<close> with an unregistered name 400 with \<^verbatim>\<open>MethodNotFound\<close>; a request
  whose dispatch returns is answered 200 with the result. The status is always 200 or 400,
  200 exactly with a result and 400 exactly with an error.
\<close>

theorem mcp_protocol_failures:
  "(field b ''jsonrpc'' \<noteq> Some (JStr ''2.0'') \<longrightarrow>
      fst (handleMCPRequest g b) = 400 \<and> error_code (snd (handleMCPRequest g b)) = Some InvalidRequest)
   \<and> (field b ''jsonrpc'' = Some (JStr ''2.0'') \<and> field b ''method'' = Some (JStr m) \<and>
        m \<noteq> ''tools/list'' \<and> m \<noteq> ''tools/call'' \<longrightarrow>
      fst (handleMCPRequest g b) = 400 \<and> error_code (snd (handleMCPRequest g b)) = Some MethodNotFound)
   \<and> (field b ''jsonrpc'' = Some (JStr ''2.0'') \<and> field b ''method'' = None \<longrightarrow>
      fst (handleMCPRequest g b) = 400 \<and> error_code (snd (handleMCPRequest g b)) = Some MethodNotFound)
   \<and> (field b ''jsonrpc'' = Some (JStr ''2.0'') \<and> field b ''method'' = Some (JStr ''tools/call'') \<and>
        \<not> truthy (opt_field (field b ''params'') ''name'') \<longrightarrow>
      fst (handleMCPRequest g b) = 400 \<and> error_code (snd (handleMCPRequest g b)) = Some InvalidParams)
   \<and> (field b ''jsonrpc'' = Some (JStr ''2.0'') \<and> field b ''method'' = Some (JStr ''tools/call'') \<and>
        opt_field (field b ''params'') ''name'' = Some (JStr n) \<and> n \<noteq> [] \<and>
        n \<noteq> ''airbnb_search'' \<and> n \<noteq> ''airbnb_listing_details'' \<longrightarrow>
      fst (handleMCPRequest g b) = 400 \<and> error_code (snd (handleMCPRequest g b)) = Some MethodNotFound)
   \<and> (field b ''jsonrpc'' = Some (JStr ''2.0'') \<and> mcp_dispatch g b = Inr res \<longrightarrow>
      handleMCPRequest g b =
        (200, \<lparr>jsonrpc = ''2.0'', id' = field b ''id'', result = Some res, error = None\<rparr>))
   \<and> (route r = PostMcp \<and> fst (authenticateToken (digest g) st r) = Granted h \<longrightarrow>
      fst (app g st r) = Rpc (fst (handleMCPRequest g (body r))) (snd (handleMCPRequest g (body r))))
   \<and> (fst (handleMCPRequest g b) = 200 \<or> fst (handleMCPRequest g b) = 400)
   \<and> (fst (handleMCPRequest g b) = 200 \<longleftrightarrow> error (snd (handleMCPRequest g b)) = None)
   \<and> (fst (handleMCPRequest g b) = 400 \<longleftrightarrow> result (snd (handleMCPRequest g b)) = None)
   \<and> (result (snd (handleMCPRequest g b)) = None \<longleftrightarrow> error (snd (handleMCPRequest g b)) \<noteq> None)"
proof -
  have v: "field b ''jsonrpc'' \<noteq> Some (JStr ''2.0'') \<Longrightarrow>
      fst (handleMCPRequest g b) = 400 \<and> error_code (snd (handleMCPRequest g b)) = Some InvalidRequest"
    by (simp add: mcp_bad_version error_code_def)
  have m1: "field b ''jsonrpc'' = Some (JStr ''2.0'') \<Longrightarrow> field b ''method'' = Some (JStr m) \<Longrightarrow>
        m \<noteq> ''tools/list'' \<Longrightarrow> m \<noteq> ''tools/call'' \<Longrightarrow>
      fst (handleMCPRequest g b) = 400 \<and> error_code (snd (handleMCPRequest g b)) = Some MethodNotFound"
    by (simp add: mcp_good_version dispatch_other template_def error_code_def code_of_def)
  have m2: "field b ''jsonrpc'' = Some (JStr ''2.0'') \<Longrightarrow> field b ''method'' = None \<Longrightarrow>
      fst (handleMCPRequest g b) = 400 \<and> error_code (snd (handleMCPRequest g b)) = Some MethodNotFound"
    by (simp add: mcp_good_version dispatch_other template_def error_code_def code_of_def)
  have p: "field b ''jsonrpc'' = Some (JStr ''2.0'') \<Longrightarrow> field b ''method'' = Some (JStr ''tools/call'') \<Longrightarrow>
        \<not> truthy (opt_field (field b ''params'') ''name'') \<Longrightarrow>
      fst (handleMCPRequest g b) = 400 \<and> error_code (snd (handleMCPRequest g b)) = Some InvalidParams"
    by (simp add: mcp_good_version dispatch_call error_code_def code_of_def)
  have u: "field b ''jsonrpc'' = Some (JStr ''2.0'') \<Longrightarrow> field b ''method'' = Some (JStr ''tools/call'') \<Longrightarrow>
        opt_field (field b ''params'') ''name'' = Some (JStr n) \<Longrightarrow> n \<noteq> [] \<Longrightarrow>
        n \<noteq> ''airbnb_search'' \<Longrightarrow> n \<noteq> ''airbnb_listing_details'' \<Longrightarrow>
      fst (handleMCPRequest g b) = 400 \<and> error_code (snd (handleMCPRequest g b)) = Some MethodNotFound"
    by (simp add: mcp_good_version dispatch_call callTool_unknown error_code_def code_of_def)
  have s: "field b ''jsonrpc'' = Some (JStr ''2.0'') \<Longrightarrow> mcp_dispatch g b = Inr res \<Longrightarrow>
      handleMCPRequest g b =
        (200, \<lparr>jsonrpc = ''2.0'', id' = field b ''id'', result = Some res, error = None\<rparr>)"
    by (simp add: mcp_good_version)
  have a: "route r = PostMcp \<Longrightarrow> fst (authenticateToken (digest g) st r) = Granted h \<Longrightarrow>
      fst (app g st r) = Rpc (fst (handleMCPRequest g (body r))) (snd (handleMCPRequest g (body r)))"
    by (simp add: app_granted route_handler_def split: prod.splits)
  from v m1 m2 p u s a mcp_status [of g b] mcp_shape [of g b] show ?thesis by blast
qed


theorem mcp_protocol_failures_witness:
  "fst (handleMCPRequest echo_gateway (JObj (fmap_of_list [(''id'', JNum 7), (''method'', JStr ''tools/list'')]))) = 400
   \<and> error_code (snd (handleMCPRequest echo_gateway
         (JObj (fmap_of_list [(''id'', JNum 7), (''method'', JStr ''tools/list'')])))) = Some InvalidRequest
   \<and> fst (handleMCPRequest echo_gateway (rpc_request (Some (JNum 7)) ''resources/list'' None)) = 400
   \<and> error_code (snd (handleMCPRequest echo_gateway (rpc_request (Some (JNum 7)) ''resources/list'' None)))
         = Some MethodNotFound
   \<and> error_code (snd (handleMCPRequest echo_gateway
         (rpc_request (Some (JNum 7)) ''tools/call'' (Some (JObj (fmap_of_list [(''arguments'', JObj fmempty)]))))))
         = Some InvalidParams
   \<and> error_code (snd (handleMCPRequest echo_gateway
         (rpc_request (Some (JNum 7)) ''tools/call'' (Some (JObj (fmap_of_list [(''name'', JStr ''airbnb_book'')]))))))
         = Some MethodNotFound
   \<and> fst (handleMCPRequest echo_gateway (rpc_request (Some (JNum 7)) ''tools/list'' None)) = 200"
  using mcp_protocol_failures [where g = echo_gateway and b = "JObj (fmap_of_list [(''id'', JNum 7), (''method'', JStr ''tools/list'')])"
          and m = "''x''" and n = "''x''" and res = "JNull"
          and r = "request_with PostMcp (Some ''Bearer a'') (JObj fmempty)"
          and st = "setupAuthentication rev (Some ''a'')" and h = "''a''"]
    mcp_protocol_failures [where g = echo_gateway and b = "rpc_request (Some (JNum 7)) ''resources/list'' None"
          and m = "''resources/list''" and n = "''x''" and res = "JNull"
          and r = "request_with PostMcp (Some ''Bearer a'') (JObj fmempty)"
          and st = "setupAuthentication rev (Some ''a'')" and h = "''a''"]
    mcp_protocol_failures [where g = echo_gateway and b = "rpc_request (Some (JNum 7)) ''tools/call'' (Some (JObj (fmap_of_list [(''arguments'', JObj fmempty)])))"
          and m = "''x''" and n = "''x''" and res = "JNull"
          and r = "request_with PostMcp (Some ''Bearer a'') (JObj fmempty)"
          and st = "setupAuthentication rev (Some ''a'')" and h = "''a''"]
    mcp_protocol_failures [where g = echo_gateway and b = "rpc_request (Some (JNum 7)) ''tools/call'' (Some (JObj (fmap_of_list [(''name'', JStr ''airbnb_book'')])))"
          and m = "''x''" and n = "''airbnb_book''" and res = "JNull"
          and r = "request_with PostMcp (Some ''Bearer a'') (JObj fmempty)"
          and st = "setupAuthentication rev (Some ''a'')" and h = "''a''"]
    mcp_protocol_failures [where g = echo_gateway and b = "rpc_request (Some (JNum 7)) ''tools/list'' None"
          and m = "''x''" and n = "''x''" and res = "JObj (fmap_of_list [(''tools'', JArr (AIRBNB_TOOLS echo_gateway))])"
          and r = "request_with PostMcp (Some ''Bearer a'') (JObj fmempty)"
          and st = "setupAuthentication rev (Some ''a'')" and h = "''a''"]
  by (simp add: rpc_request_def dispatch_list)

text \<open>
  C5: a \<^verbatim>\<open>tools/list\<close> request is answered 200 with the request's id as it came
  (string, number or absent) and with the catalog \<^verbatim>\<open>AIRBNB_TOOLS\<close> in its order, so of
  its length; any two such requests get the same result, and the stdio handler and the
  REST alias return the same catalog.
\<close>

theorem tools_list_reply:
  "(field b ''jsonrpc'' = Some (JStr ''2.0'') \<and> field b ''method'' = Some (JStr ''tools/list'') \<longrightarrow>
      fst (handleMCPRequest g b) = 200
      \<and> id' (snd (handleMCPRequest g b)) = field b ''id''
      \<and> error (snd (handleMCPRequest g b)) = None
      \<and> result_tools (snd (handleMCPRequest g b)) = Some (AIRBNB_TOOLS g)
      \<and> map_option length (result_tools (snd (handleMCPRequest g b))) = Some (length (AIRBNB_TOOLS g)))
   \<and> (field b ''jsonrpc'' = Some (JStr ''2.0'') \<and> field b ''method'' = Some (JStr ''tools/list'') \<and>
        field c ''jsonrpc'' = Some (JStr ''2.0'') \<and> field c ''method'' = Some (JStr ''tools/list'') \<longrightarrow>
      result (snd (handleMCPRequest g b)) = result (snd (handleMCPRequest g c)))
   \<and> field (stdio_listTools g) ''tools'' = Some (JArr (AIRBNB_TOOLS g))
   \<and> handleListTools g = (200, stdio_listTools g)"
  by (simp add: mcp_good_version dispatch_list result_tools_def stdio_listTools_def handleListTools_def)

theorem tools_list_reply_witness:
  "id' (snd (handleMCPRequest echo_gateway (rpc_request (Some (JStr ''req-1'')) ''tools/list'' None)))
     = Some (JStr ''req-1'')
   \<and> id' (snd (handleMCPRequest echo_gateway (rpc_request (Some (JNum 0)) ''tools/list'' None)))
     = Some (JNum 0)
   \<and> map_option length (result_tools (snd (handleMCPRequest echo_gateway
         (rpc_request (Some (JNum 0)) ''tools/list'' None)))) = Some 2"
  using tools_list_reply [of "rpc_request (Some (JStr ''req-1'')) ''tools/list'' None" echo_gateway JNull]
    tools_list_reply [of "rpc_request (Some (JNum 0)) ''tools/list'' None" echo_gateway JNull]
  by (simp add: rpc_request_def echo_gateway_def)

text \<open>
  C10: a reply on \<^verbatim>\<open>/mcp\<close> that carries an error has the id \<^verbatim>\<open>request id || null\<close>,
  which is \<^verbatim>\<open>null\<close> for a falsy id (\<^verbatim>\<open>0\<close>, the empty string, absent) and so differs
  from the request's id unless that is truthy or \<^verbatim>\<open>null\<close>; a reply that carries a
  result has the request's id unchanged.
\<close>

theorem error_reply_id_or_null:
  "(error (snd (handleMCPRequest g b)) \<noteq> None \<longrightarrow>
      id' (snd (handleMCPRequest g b)) = Some (or_null (field b ''id'')))
   \<and> (error (snd (handleMCPRequest g b)) \<noteq> None \<and> \<not> truthy (field b ''id'') \<longrightarrow>
      id' (snd (handleMCPRequest g b)) = Some JNull)
   \<and> (error (snd (handleMCPRequest g b)) \<noteq> None \<longrightarrow>
      (id' (snd (handleMCPRequest g b)) = field b ''id'') =
        (truthy (field b ''id'') \<or> field b ''id'' = Some JNull))
   \<and> (result (snd (handleMCPRequest g b)) \<noteq> None \<longrightarrow>
      id' (snd (handleMCPRequest g b)) = field b ''id'')
   \<and> \<not> truthy (Some (JNum 0)) \<and> \<not> truthy (Some (JStr [])) \<and> \<not> truthy None"
  using mcp_ids [of g b] or_null_falsy [of "field b ''id''"] or_null_echo [of "field b ''id''"]
  by auto

theorem error_reply_id_or_null_witness:
  "id' (snd (handleMCPRequest echo_gateway (rpc_request (Some (JNum 0)) ''prompts/list'' None)))
     = Some JNull
   \<and> id' (snd (handleMCPRequest echo_gateway (rpc_request (Some (JStr [])) ''prompts/list'' None)))
     = Some JNull
   \<and> id' (snd (handleMCPRequest echo_gateway (rpc_request None ''prompts/list'' None)))
     = Some JNull
   \<and> id' (snd (handleMCPRequest echo_gateway (JObj (fmap_of_list [(''id'', JNum 0)]))))
     = Some JNull
   \<and> id' (snd (handleMCPRequest echo_gateway (rpc_request (Some (JNum 5)) ''prompts/list'' None)))
     = Some (JNum 5)
   \<and> id' (snd (handleMCPRequest echo_gateway (rpc_request (Some (JNum 0)) ''tools/list'' None)))
     = Some (JNum 0)
   \<and> id' (snd (handleMCPRequest echo_gateway (rpc_request None ''tools/list'' None))) = None"
  using error_reply_id_or_null [of echo_gateway "rpc_request (Some (JNum 0)) ''prompts/list'' None"]
    error_reply_id_or_null [of echo_gateway "rpc_request (Some (JStr [])) ''prompts/list'' None"]
    error_reply_id_or_null [of echo_gateway "rpc_request None ''prompts/list'' None"]
    error_reply_id_or_null [of echo_gateway "JObj (fmap_of_list [(''id'', JNum 0)])"]
    error_reply_id_or_null [of echo_gateway "rpc_request (Some (JNum 5)) ''prompts/list'' None"]
    error_reply_id_or_null [of echo_gateway "rpc_request (Some (JNum 0)) ''tools/list'' None"]
    error_reply_id_or_null [of echo_gateway "rpc_request None ''tools/list'' None"]
  by (simp add: rpc_request_def handleMCPRequest_def mcp_dispatch_def template_def or_null_def)

text \<open>
  C9: on a \<^verbatim>\<open>tools/call\<close> that names a tool and has no \<^verbatim>\<open>arguments\<close>, the stdio
  handler throws \<^verbatim>\<open>InvalidParams\<close> (Tool arguments are required) whatever the name,
  while \<^verbatim>\<open>/mcp\<close> calls the tool with the empty object and answers with what it
  returns.
\<close>

theorem missing_arguments_diverge:
  "(name \<noteq> [] \<longrightarrow>
      stdio_callTool g now name None = Inl (McpError InvalidParams ''Tool arguments are required''))
   \<and> (field b ''method'' = Some (JStr ''tools/call'') \<and>
        opt_field (field b ''params'') ''name'' = Some (JStr n) \<and> n \<noteq> [] \<and>
        opt_field (field b ''params'') ''arguments'' = None \<longrightarrow>
      mcp_dispatch g b = callTool g (JStr n) (JObj fmempty))
   \<and> (field b ''jsonrpc'' = Some (JStr ''2.0'') \<and> field b ''method'' = Some (JStr ''tools/call'') \<and>
        opt_field (field b ''params'') ''name'' = Some (JStr ''airbnb_search'') \<and>
        opt_field (field b ''params'') ''arguments'' = None \<longrightarrow>
      handleMCPRequest g b =
        (case handleAirbnbSearch g (JObj fmempty) of
           Inr res \<Rightarrow>
             (200, \<lparr>jsonrpc = ''2.0'', id' = field b ''id'', result = Some res, error = None\<rparr>)
         | Inl e \<Rightarrow>
             (400, \<lparr>jsonrpc = ''2.0'', id' = Some (or_null (field b ''id'')), result = None,
                    error = Some \<lparr>code = code_of e, message = message_of e\<rparr>\<rparr>)))
   \<and> (field b ''jsonrpc'' = Some (JStr ''2.0'') \<and> field b ''method'' = Some (JStr ''tools/call'') \<and>
        opt_field (field b ''params'') ''name'' = Some (JStr ''airbnb_listing_details'') \<and>
        opt_field (field b ''params'') ''arguments'' = None \<longrightarrow>
      handleMCPRequest g b =
        (case handleAirbnbListingDetails g (JObj fmempty) of
           Inr res \<Rightarrow>
             (200, \<lparr>jsonrpc = ''2.0'', id' = field b ''id'', result = Some res, error = None\<rparr>)
         | Inl e \<Rightarrow>
             (400, \<lparr>jsonrpc = ''2.0'', id' = Some (or_null (field b ''id'')), result = None,
                    error = Some \<lparr>code = code_of e, message = message_of e\<rparr>\<rparr>)))"
  by (simp add: stdio_no_arguments dispatch_no_arguments mcp_good_version callTool_def)

theorem missing_arguments_diverge_witness:
  "stdio_callTool echo_gateway ''t0'' ''airbnb_search'' None
     = Inl (McpError InvalidParams ''Tool arguments are required'')
   \<and> handleMCPRequest echo_gateway
       (rpc_request (Some (JNum 3)) ''tools/call''
          (Some (JObj (fmap_of_list [(''name'', JStr ''airbnb_search'')]))))
     = (200, \<lparr>jsonrpc = ''2.0'', id' = Some (JNum 3), result = Some (JObj fmempty), error = None\<rparr>)"
  using missing_arguments_diverge [of "''airbnb_search''" echo_gateway "''t0''"
          "rpc_request (Some (JNum 3)) ''tools/call''
             (Some (JObj (fmap_of_list [(''name'', JStr ''airbnb_search'')])))" "''airbnb_search''"]
  by (simp add: rpc_request_def echo_gateway_def)

section \<open>Replies of the REST aliases\<close>

text \<open>
  C8: \<^verbatim>\<open>/api/tools/call\<close>, reached after authentication, answers a body without a
  (truthy) \<^verbatim>\<open>name\<close> with 400 and the body \<^verbatim>\<open>{error: "Tool name is required"}\<close>; for a
  registered name it answers 200 with whatever result the tool returned, also one marked
  \<^verbatim>\<open>isError\<close>.
\<close>

theorem call_alias_replies:
  "(\<not> truthy (field b ''name'') \<longrightarrow>
      handleCallTool g b = (400, error_body ''Tool name is required''))
   \<and> (field b ''name'' = Some (JStr ''airbnb_search'') \<and>
        handleAirbnbSearch g (or_empty (field b ''arguments'')) = Inr res \<longrightarrow>
      handleCallTool g b = (200, res))
   \<and> (field b ''name'' = Some (JStr ''airbnb_listing_details'') \<and>
        handleAirbnbListingDetails g (or_empty (field b ''arguments'')) = Inr res \<longrightarrow>
      handleCallTool g b = (200, res))
   \<and> (route r = PostToolsCall \<and> fst (authenticateToken (digest g) st r) = Granted h \<longrightarrow>
      fst (app g st r) = Json (fst (handleCallTool g (body r))) (snd (handleCallTool g (body r))))"
proof -
  have a: "route r = PostToolsCall \<Longrightarrow> fst (authenticateToken (digest g) st r) = Granted h \<Longrightarrow>
      fst (app g st r) = Json (fst (handleCallTool g (body r))) (snd (handleCallTool g (body r)))"
    by (simp add: app_granted route_handler_def split: prod.splits)
  have c: "(\<not> truthy (field b ''name'') \<longrightarrow>
      handleCallTool g b = (400, error_body ''Tool name is required''))
   \<and> (field b ''name'' = Some (JStr ''airbnb_search'') \<and>
        handleAirbnbSearch g (or_empty (field b ''arguments'')) = Inr res \<longrightarrow>
      handleCallTool g b = (200, res))
   \<and> (field b ''name'' = Some (JStr ''airbnb_listing_details'') \<and>
        handleAirbnbListingDetails g (or_empty (field b ''arguments'')) = Inr res \<longrightarrow>
      handleCallTool g b = (200, res))"
    by (cases "field b ''name''") (auto simp: handleCallTool_def callTool_def)
  from a c show ?thesis by blast
qed

theorem call_alias_replies_witness:
  "handleCallTool echo_gateway (JObj fmempty) = (400, error_body ''Tool name is required'')
   \<and> fst (handleCallTool echo_gateway (JObj (fmap_of_list
         [(''name'', JStr ''airbnb_search''),
          (''arguments'', JObj (fmap_of_list [(''isError'', JBool True)]))]))) = 200
   \<and> field (snd (handleCallTool echo_gateway (JObj (fmap_of_list
         [(''name'', JStr ''airbnb_search''),
          (''arguments'', JObj (fmap_of_list [(''isError'', JBool True)]))])))) ''isError''
       = Some (JBool True)"
  using call_alias_replies [where g = echo_gateway and b = "JObj fmempty"
          and res = "JNull"
          and r = "request_with PostToolsCall (Some ''Bearer a'') (JObj fmempty)"
          and st = "setupAuthentication rev (Some ''a'')" and h = "''a''"]
    call_alias_replies [where g = echo_gateway and b = "JObj (fmap_of_list
         [(''name'', JStr ''airbnb_search''),
          (''arguments'', JObj (fmap_of_list [(''isError'', JBool True)]))])"
          and res = "JObj (fmap_of_list [(''isError'', JBool True)])"
          and r = "request_with PostToolsCall (Some ''Bearer a'') (JObj fmempty)"
          and st = "setupAuthentication rev (Some ''a'')" and h = "''a''"]
  by (simp add: echo_gateway_def or_empty_def)

text \<open>
  C3, as the code has it. The terminal handler answers 500 with a fixed body and puts the
  error's message and stack in the log only. A route handler, however, catches what is
  thrown while it runs and returns \<^verbatim>\<open>error.message\<close> (for an \<^verbatim>\<open>McpError\<close> the library's
  text \<^verbatim>\<open>MCP error <code>: <message>\<close>): with status 500 on the search and listing
  aliases, with status 400 on \<^verbatim>\<open>/api/tools/call\<close> and on \<^verbatim>\<open>/mcp\<close>.
\<close>

theorem handlers_report_own_exceptions:
  "fst (errorHandler err_message err_stack path method) = (500, generic_error_body)
   \<and> data (snd (errorHandler err_message err_stack path method)) =
       [(''error'', err_message), (''stack'', err_stack), (''path'', Some path), (''method'', Some method)]
   \<and> (handleAirbnbSearch g b = Inl e \<longrightarrow>
        handleAirbnbSearchAPI g b = (500, error_body (message_of e)))
   \<and> (handleAirbnbListingDetails g (listing_params pid b) = Inl e \<longrightarrow>
        handleAirbnbListingAPI g pid b = (500, error_body (message_of e)))
   \<and> (field b ''name'' = Some name \<and> truthy (Some name) \<and>
        callTool g name (or_empty (field b ''arguments'')) = Inl e \<longrightarrow>
        handleCallTool g b = (400, error_body (message_of e)))
   \<and> (field b ''jsonrpc'' = Some (JStr ''2.0'') \<and> mcp_dispatch g b = Inl e \<longrightarrow>
        handleMCPRequest g b =
          (400, \<lparr>jsonrpc = ''2.0'', id' = Some (or_null (field b ''id'')), result = None,
                 error = Some \<lparr>code = code_of e, message = message_of e\<rparr>\<rparr>))"
  by (simp add: errorHandler_def handleAirbnbSearchAPI_def handleAirbnbListingAPI_def
        handleCallTool_def mcp_good_version)

theorem handlers_report_own_exceptions_witness:
  "handleAirbnbSearchAPI (failing_gateway ''boom'') (JObj fmempty) = (500, error_body ''boom'')
   \<and> handleAirbnbListingAPI (failing_gateway ''boom'') ''42'' (JObj fmempty) = (500, error_body ''boom'')
   \<and> handleCallTool (failing_gateway ''boom'') (JObj (fmap_of_list [(''name'', JStr ''airbnb_search'')]))
       = (400, error_body ''boom'')
   \<and> handleCallTool echo_gateway (JObj (fmap_of_list [(''name'', JStr ''airbnb_book'')]))
       = (400, error_body ''MCP error -32601: Unknown tool: airbnb_book'')
   \<and> fst (handleMCPRequest (failing_gateway ''boom'')
         (rpc_request (Some (JNum 1)) ''tools/call''
            (Some (JObj (fmap_of_list [(''name'', JStr ''airbnb_search'')]))))) = 400
   \<and> map_option message (error (snd (handleMCPRequest (failing_gateway ''boom'')
         (rpc_request (Some (JNum 1)) ''tools/call''
            (Some (JObj (fmap_of_list [(''name'', JStr ''airbnb_search'')]))))))) = Some ''boom''
   \<and> map_option message (error (snd (handleMCPRequest echo_gateway
         (rpc_request (Some (JNum 1)) ''tools/call'' (Some (JObj fmempty))))))
       = Some ''MCP error -32602: Tool name is required''"
  using handlers_report_own_exceptions [of "Some ''x''" None "''/mcp''" "''POST''"
          "failing_gateway ''boom''"
          "JObj fmempty"
          "Error ''boom''" "''42''" "JNull"]
    handlers_report_own_exceptions [of "Some ''x''" None "''/mcp''" "''POST''"
          "failing_gateway ''boom''"
          "JObj (fmap_of_list [(''name'', JStr ''airbnb_search'')])"
          "Error ''boom''" "''42''" "JStr ''airbnb_search''"]
    handlers_report_own_exceptions [of "Some ''x''" None "''/mcp''" "''POST''"
          echo_gateway
          "JObj (fmap_of_list [(''name'', JStr ''airbnb_book'')])"
          "McpError MethodNotFound ''Unknown tool: airbnb_book''" "''42''" "JStr ''airbnb_book''"]
    handlers_report_own_exceptions [of "Some ''x''" None "''/mcp''" "''POST''"
          "failing_gateway ''boom''"
          "rpc_request (Some (JNum 1)) ''tools/call''
            (Some (JObj (fmap_of_list [(''name'', JStr ''airbnb_search'')])))"
          "Error ''boom''" "''42''" "JStr ''airbnb_search''"]
    handlers_report_own_exceptions [of "Some ''x''" None "''/mcp''" "''POST''"
          echo_gateway
          "rpc_request (Some (JNum 1)) ''tools/call'' (Some (JObj fmempty))"
          "McpError InvalidParams ''Tool name is required''" "''42''" "JNull"]
  by (simp add: failing_gateway_def echo_gateway_def message_of_def mcp_error_message_def code_text
        callTool_def rpc_request_def dispatch_call or_empty_def)

text \<open>
  C3 as stated fails: an \<^verbatim>\<open>Error\<close> thrown by the search tool comes back to the caller
  with its message in the body, and on \<^verbatim>\<open>/api/tools/call\<close> with status 400.
\<close>

theorem route_handler_echoes_exception_counterexample:
  "handleAirbnbSearchAPI (failing_gateway ''connect ECONNREFUSED'') (JObj fmempty)
     = (500, error_body ''connect ECONNREFUSED'')
   \<and> field (snd (handleAirbnbSearchAPI (failing_gateway ''connect ECONNREFUSED'') (JObj fmempty))) ''error''
       = Some (JStr ''connect ECONNREFUSED'')
   \<and> field generic_error_body ''error'' = Some (JStr ''Internal Server Error'')
   \<and> fst (handleCallTool (failing_gateway ''connect ECONNREFUSED'')
         (JObj (fmap_of_list [(''name'', JStr ''airbnb_search'')]))) = 400"
  by (simp add: handleAirbnbSearchAPI_def handleCallTool_def callTool_def failing_gateway_def
        echo_gateway_def message_of_def error_body_def generic_error_body_def or_empty_def)

end
